theory Spec2Isabelle
  imports Complex_Main
begin

section \<open>The SwagUp API client (api.py)\<close>

text \<open>
  A shallow embedding of \<^verbatim>\<open>SwagUpApiClient\<close>. Every method of the class builds one
  request, hands it to the \<^verbatim>\<open>requests\<close> library and passes the response to
  \<^verbatim>\<open>_handle_response\<close>. The network is a function from the request to the response it
  gets; exceptions are values of a sum type.
\<close>

subsection \<open>JSON values\<close>

text \<open>
  The values that \<^verbatim>\<open>json=\<close> serialises and \<^verbatim>\<open>response.json()\<close> yields. A Python dict
  is an association list in insertion order. Floats are only passed through by the client,
  never computed with, and are represented by the number they denote.
\<close>

datatype json =
    JNull
  | JBool bool
  | JInt int
  | JFloat real
  | JString string
  | JArray "json list"
  | JObject "(string \<times> json) list"

text \<open>Python's \<^verbatim>\<open>d.get(k)\<close> on a decoded value: \<open>None\<close> when the value is no dict or lacks the key.\<close>

fun json_get :: "string \<Rightarrow> json \<Rightarrow> json option" where
  "json_get k (JObject kvs) = map_of kvs k"
| "json_get k _ = None"

fun json_keys :: "json \<Rightarrow> string list" where
  "json_keys (JObject kvs) = map fst kvs"
| "json_keys _ = []"

subsection \<open>Requests and responses\<close>

datatype verb = GET | POST | DELETE

text \<open>
  What a call of \<^verbatim>\<open>requests.get/post/delete\<close> is given besides the URL and the headers:
  nothing, a \<^verbatim>\<open>json=\<close> payload, or a \<^verbatim>\<open>files=\<close> dict.
\<close>

datatype body = NoBody | JsonBody json | FilesBody "(string \<times> string) list"

record request =
  verb :: verb
  url :: string
  headers :: "(string \<times> string) list"
  body :: body

text \<open>
  The part of \<^verbatim>\<open>requests.Response\<close> the client can see. \<open>json_body\<close> is what
  \<^verbatim>\<open>response.json()\<close> returns, \<open>None\<close> when the body is not valid JSON (the library
  then raises \<^verbatim>\<open>JSONDecodeError\<close>).
\<close>

record response =
  status_code :: int
  reason :: string
  resp_headers :: "(string \<times> string) list"
  json_body :: "json option"

type_synonym transport = "request \<Rightarrow> response"

subsection \<open>Exceptions\<close>

text \<open>
  \<^verbatim>\<open>ValueError(msg)\<close> is what \<^verbatim>\<open>_handle_response\<close> raises itself; \<open>JSONDecodeError\<close> is
  the library's exception from \<^verbatim>\<open>response.json()\<close>, which the handler does not catch.
\<close>

datatype error = ValueError string | JSONDecodeError

subsection \<open>Formatting an integer in an f-string\<close>

definition digit_char :: "nat \<Rightarrow> char" where
  "digit_char d = ''0123456789'' ! d"

function str_nat :: "nat \<Rightarrow> string" where
  "str_nat n = (if n < 10 then [digit_char n] else str_nat (n div 10) @ [digit_char (n mod 10)])"
  by pat_completeness auto
termination
  by (relation "measure (\<lambda>n. n)") auto

declare str_nat.simps [simp del]

definition str_int :: "int \<Rightarrow> string" where
  "str_int i = (if i < 0 then CHR ''-'' # str_nat (nat (- i)) else str_nat (nat i))"

subsection \<open>The client\<close>

record client =
  base_url :: string
  api_key :: string

definition init :: "string \<Rightarrow> string \<Rightarrow> client" where
  "init b k = \<lparr>base_url = b, api_key = k\<rparr>"

text \<open>
  \<^verbatim>\<open>Response.raise_for_status()\<close> of the requests library raises \<^verbatim>\<open>HTTPError\<close> for the
  client errors 400..499 and the server errors 500..599, and returns for every other code.
  The value is whether it raises.
\<close>

definition raise_for_status :: "response \<Rightarrow> bool" where
  "raise_for_status r = (400 \<le> status_code r \<and> status_code r < 600)"

text \<open>
  \<^verbatim>\<open>_handle_response\<close>: the \<^verbatim>\<open>try\<close> body returns \<^verbatim>\<open>response.json()\<close> when
  \<^verbatim>\<open>raise_for_status\<close> does not raise; the \<^verbatim>\<open>except requests.HTTPError\<close> branch turns
  the status code into a \<^verbatim>\<open>ValueError\<close>.
\<close>

definition handle_response :: "client \<Rightarrow> response \<Rightarrow> error + json" where
  "handle_response self response =
     (if \<not> raise_for_status response then
        (case json_body response of
           Some j \<Rightarrow> Inr j
         | None \<Rightarrow> Inl JSONDecodeError)
      else if status_code response = 400 then
        Inl (ValueError ''Bad request. Please check your input.'')
      else if status_code response = 401 then
        Inl (ValueError ''Unauthorized. Please check your API key.'')
      else if status_code response = 404 then
        Inl (ValueError ''Resource not found.'')
      else
        Inl (ValueError (''Request failed with status code: '' @ str_int (status_code response))))"

text \<open>
  \<^verbatim>\<open>requests.post\<close>, \<^verbatim>\<open>requests.get\<close> and \<^verbatim>\<open>requests.delete\<close>: the request that goes
  out, and the response that comes back for it.
\<close>

definition requests_post :: "transport \<Rightarrow> string \<Rightarrow> (string \<times> string) list \<Rightarrow> body \<Rightarrow> request \<times> response" where
  "requests_post send u hs b =
     (let rq = \<lparr>verb = POST, url = u, headers = hs, body = b\<rparr> in (rq, send rq))"

definition requests_get :: "transport \<Rightarrow> string \<Rightarrow> (string \<times> string) list \<Rightarrow> request \<times> response" where
  "requests_get send u hs =
     (let rq = \<lparr>verb = GET, url = u, headers = hs, body = NoBody\<rparr> in (rq, send rq))"

definition requests_delete :: "transport \<Rightarrow> string \<Rightarrow> (string \<times> string) list \<Rightarrow> request \<times> response" where
  "requests_delete send u hs =
     (let rq = \<lparr>verb = DELETE, url = u, headers = hs, body = NoBody\<rparr> in (rq, send rq))"

text \<open>
  What a method call leaves behind: the requests it sent, the client object afterwards
  (no method assigns to \<^verbatim>\<open>self\<close>), and the value returned or the exception raised.
\<close>

record outcome =
  sent :: "request list"
  client_after :: client
  result :: "error + json"

definition create_design ::
  "client \<Rightarrow> transport \<Rightarrow> string \<Rightarrow> string \<Rightarrow> string \<Rightarrow> string list \<Rightarrow> string list \<Rightarrow> real \<Rightarrow> outcome" where
  "create_design self send designer_id design_name design_description categories tags price =
     (let u = base_url self @ ''/designs'';
          hs = [(''X-SwagUp-API-Key'', api_key self)];
          payload = JObject
            [(''designerId'', JString designer_id),
             (''designName'', JString design_name),
             (''designDescription'', JString design_description),
             (''categories'', JArray (map JString categories)),
             (''tags'', JArray (map JString tags)),
             (''price'', JFloat price)];
          (rq, response) = requests_post send u hs (JsonBody payload)
      in \<lparr>sent = [rq], client_after = self, result = handle_response self response\<rparr>)"

definition upload_image :: "client \<Rightarrow> transport \<Rightarrow> string \<Rightarrow> outcome" where
  "upload_image self send image_arg =
     (let u = base_url self @ ''/images'';
          hs = [(''X-SwagUp-API-Key'', api_key self)];
          files = [(''image'', image_arg)];
          (rq, response) = requests_post send u hs (FilesBody files)
      in \<lparr>sent = [rq], client_after = self, result = handle_response self response\<rparr>)"

definition get_design_details :: "client \<Rightarrow> transport \<Rightarrow> string \<Rightarrow> outcome" where
  "get_design_details self send design_id =
     (let u = base_url self @ ''/designs/'' @ design_id;
          hs = [(''X-SwagUp-API-Key'', api_key self)];
          (rq, response) = requests_get send u hs
      in \<lparr>sent = [rq], client_after = self, result = handle_response self response\<rparr>)"

definition choose_logo_color :: "client \<Rightarrow> transport \<Rightarrow> (string \<times> json) list \<Rightarrow> string \<Rightarrow> outcome" where
  "choose_logo_color self send color design_id =
     (let u = base_url self @ ''/logo-color'';
          hs = [(''X-SwagUp-API-Key'', api_key self)];
          payload = JObject
            [(''color'', JObject color),
             (''designId'', JString design_id)];
          (rq, response) = requests_post send u hs (JsonBody payload)
      in \<lparr>sent = [rq], client_after = self, result = handle_response self response\<rparr>)"

definition select_size_and_quantity :: "client \<Rightarrow> transport \<Rightarrow> string \<Rightarrow> json list \<Rightarrow> outcome" where
  "select_size_and_quantity self send design_id items =
     (let u = base_url self @ ''/orders/sizes-quantity'';
          hs = [(''X-SwagUp-API-Key'', api_key self)];
          payload = JObject
            [(''designId'', JString design_id),
             (''items'', JArray items)];
          (rq, response) = requests_post send u hs (JsonBody payload)
      in \<lparr>sent = [rq], client_after = self, result = handle_response self response\<rparr>)"

definition set_shipping_destination :: "client \<Rightarrow> transport \<Rightarrow> string \<Rightarrow> (string \<times> json) list \<Rightarrow> outcome" where
  "set_shipping_destination self send design_id address =
     (let u = base_url self @ ''/orders/shipping'';
          hs = [(''X-SwagUp-API-Key'', api_key self)];
          payload = JObject
            [(''designId'', JString design_id),
             (''address'', JObject address)];
          (rq, response) = requests_post send u hs (JsonBody payload)
      in \<lparr>sent = [rq], client_after = self, result = handle_response self response\<rparr>)"

definition manage_payment_methods :: "client \<Rightarrow> transport \<Rightarrow> (string \<times> json) list \<Rightarrow> outcome" where
  "manage_payment_methods self send payment_method =
     (let u = base_url self @ ''/payment-methods'';
          hs = [(''X-SwagUp-API-Key'', api_key self)];
          payload = JObject [(''paymentMethod'', JObject payment_method)];
          (rq, response) = requests_post send u hs (JsonBody payload)
      in \<lparr>sent = [rq], client_after = self, result = handle_response self response\<rparr>)"

definition place_order :: "client \<Rightarrow> transport \<Rightarrow> string \<Rightarrow> string \<Rightarrow> outcome" where
  "place_order self send design_id payment_method_id =
     (let u = base_url self @ ''/orders'';
          hs = [(''X-SwagUp-API-Key'', api_key self)];
          payload = JObject
            [(''designId'', JString design_id),
             (''paymentMethodId'', JString payment_method_id)];
          (rq, response) = requests_post send u hs (JsonBody payload)
      in \<lparr>sent = [rq], client_after = self, result = handle_response self response\<rparr>)"

definition track_order :: "client \<Rightarrow> transport \<Rightarrow> string \<Rightarrow> outcome" where
  "track_order self send order_id =
     (let u = base_url self @ ''/orders/'' @ order_id;
          hs = [(''X-SwagUp-API-Key'', api_key self)];
          (rq, response) = requests_get send u hs
      in \<lparr>sent = [rq], client_after = self, result = handle_response self response\<rparr>)"

definition cancel_order :: "client \<Rightarrow> transport \<Rightarrow> string \<Rightarrow> outcome" where
  "cancel_order self send order_id =
     (let u = base_url self @ ''/orders/'' @ order_id;
          hs = [(''X-SwagUp-API-Key'', api_key self)];
          (rq, response) = requests_delete send u hs
      in \<lparr>sent = [rq], client_after = self, result = handle_response self response\<rparr>)"

subsection \<open>Any call of the client\<close>

text \<open>The ten public methods with their arguments, and the dispatch to them.\<close>

datatype call =
    CreateDesign string string string "string list" "string list" real
  | UploadImage string
  | GetDesignDetails string
  | ChooseLogoColor "(string \<times> json) list" string
  | SelectSizeAndQuantity string "json list"
  | SetShippingDestination string "(string \<times> json) list"
  | ManagePaymentMethods "(string \<times> json) list"
  | PlaceOrder string string
  | TrackOrder string
  | CancelOrder string

fun invoke :: "client \<Rightarrow> transport \<Rightarrow> call \<Rightarrow> outcome" where
  "invoke self send (CreateDesign di dn dd cs ts p) = create_design self send di dn dd cs ts p"
| "invoke self send (UploadImage image_arg) = upload_image self send image_arg"
| "invoke self send (GetDesignDetails design_id) = get_design_details self send design_id"
| "invoke self send (ChooseLogoColor color design_id) = choose_logo_color self send color design_id"
| "invoke self send (SelectSizeAndQuantity design_id items) = select_size_and_quantity self send design_id items"
| "invoke self send (SetShippingDestination design_id address) = set_shipping_destination self send design_id address"
| "invoke self send (ManagePaymentMethods pm) = manage_payment_methods self send pm"
| "invoke self send (PlaceOrder design_id pm_id) = place_order self send design_id pm_id"
| "invoke self send (TrackOrder order_id) = track_order self send order_id"
| "invoke self send (CancelOrder order_id) = cancel_order self send order_id"

subsection \<open>The content type of the request on the wire\<close>

text \<open>
  \<^verbatim>\<open>PreparedRequest.prepare_body\<close> of the requests library chooses the
  \<^verbatim>\<open>Content-Type\<close> header when the caller's headers name none, as is the case for every
  request of this client: a non-empty \<^verbatim>\<open>files=\<close> dict is encoded as multipart form data
  under a fresh boundary, a \<^verbatim>\<open>json=\<close> payload as JSON, and a request without a body
  gets no content type. The boundary is the library's choice and is a parameter here.
\<close>

definition content_type :: "string \<Rightarrow> request \<Rightarrow> string option" where
  "content_type boundary rq =
     (case body rq of
        NoBody \<Rightarrow> None
      | JsonBody j \<Rightarrow> Some ''application/json''
      | FilesBody fs \<Rightarrow>
          (if fs = [] then None else Some (''multipart/form-data; boundary='' @ boundary)))"

subsection \<open>The operation table of the specification\<close>

text \<open>
  The verb and the path of each operation as the specification's table lists them, with
  the identifier put into the path template as it is.
\<close>

fun spec_verb :: "call \<Rightarrow> verb" where
  "spec_verb (CreateDesign di dn dd cs ts p) = POST"
| "spec_verb (UploadImage image_arg) = POST"
| "spec_verb (GetDesignDetails design_id) = GET"
| "spec_verb (ChooseLogoColor color design_id) = POST"
| "spec_verb (SelectSizeAndQuantity design_id items) = POST"
| "spec_verb (SetShippingDestination design_id address) = POST"
| "spec_verb (ManagePaymentMethods pm) = POST"
| "spec_verb (PlaceOrder design_id pm_id) = POST"
| "spec_verb (TrackOrder order_id) = GET"
| "spec_verb (CancelOrder order_id) = DELETE"

fun spec_path :: "call \<Rightarrow> string" where
  "spec_path (CreateDesign di dn dd cs ts p) = ''/designs''"
| "spec_path (UploadImage image_arg) = ''/images''"
| "spec_path (GetDesignDetails design_id) = ''/designs/'' @ design_id"
| "spec_path (ChooseLogoColor color design_id) = ''/logo-color''"
| "spec_path (SelectSizeAndQuantity design_id items) = ''/orders/sizes-quantity''"
| "spec_path (SetShippingDestination design_id address) = ''/orders/shipping''"
| "spec_path (ManagePaymentMethods pm) = ''/payment-methods''"
| "spec_path (PlaceOrder design_id pm_id) = ''/orders''"
| "spec_path (TrackOrder order_id) = ''/orders/'' @ order_id"
| "spec_path (CancelOrder order_id) = ''/orders/'' @ order_id"

subsection \<open>Reading a decimal number back\<close>

text \<open>The inverse of the formatting, used to show that a message determines its status code.\<close>

definition digit_val :: "char \<Rightarrow> nat" where
  "digit_val ch = of_char ch - 48"

definition nat_of_str :: "string \<Rightarrow> nat" where
  "nat_of_str s = foldl (\<lambda>acc ch. 10 * acc + digit_val ch) 0 s"

subsection \<open>The fixtures of the test suite\<close>

text \<open>
  The client of \<^verbatim>\<open>setUp\<close>, a mocked transport that answers every request with one status
  and one body, and the envelope that \<^verbatim>\<open>test_create_design\<close> lets the server return.
\<close>

definition test_client :: client where
  "test_client = init ''https://api.example.com'' ''your_api_key''"

definition mock :: "int \<Rightarrow> json option \<Rightarrow> transport" where
  "mock status j = (\<lambda>rq. \<lparr>status_code = status, reason = [], resp_headers = [], json_body = j\<rparr>)"

definition create_design_data :: json where
  "create_design_data = JObject
     [(''designId'', JString ''123''),
      (''designerId'', JString ''designer123''),
      (''designName'', JString ''Cool Cat''),
      (''designDescription'', JString ''Cat wearing sunglasses''),
      (''categories'', JArray [JString ''Animals'', JString ''Humor'']),
      (''tags'', JArray [JString ''cat'', JString ''cool'', JString ''sunglasses'']),
      (''price'', JFloat (1999 / 100)),
      (''timestamp'', JString ''2023-07-10T15:00:00Z'')]"

definition create_design_envelope :: json where
  "create_design_envelope = JObject
     [(''status'', JString ''success''),
      (''message'', JString ''Design created successfully''),
      (''data'', create_design_data)]"

definition test_create_design :: outcome where
  "test_create_design =
     create_design test_client (mock 200 (Some create_design_envelope))
       ''designer123'' ''Cool Cat'' ''Cat wearing sunglasses''
       [''Animals'', ''Humor''] [''cat'', ''cool'', ''sunglasses''] (1999 / 100)"

text \<open>An envelope whose \<open>data\<close> object has no field at all.\<close>

definition empty_data_envelope :: json where
  "empty_data_envelope = JObject
     [(''status'', JString ''success''),
      (''message'', JString ''Design created successfully''),
      (''data'', JObject [])]"

lemmas op_defs =
  create_design_def upload_image_def get_design_details_def choose_logo_color_def
  select_size_and_quantity_def set_shipping_destination_def manage_payment_methods_def
  place_order_def track_order_def cancel_order_def
  requests_post_def requests_get_def requests_delete_def Let_def

section \<open>Shared facts\<close>

text \<open>Every method sends one request and returns what the handler makes of its response.\<close>

lemma invoke_one_request: "\<exists>rq. sent (invoke self send c) = [rq]"
  by (cases c) (simp_all add: op_defs)

lemma invoke_result:
  "sent (invoke self send c) = [rq] \<Longrightarrow> result (invoke self send c) = handle_response self (send rq)"
  by (cases c) (auto simp add: op_defs)

subsection \<open>Decimal formatting is injective\<close>

lemma digit_val_digit_char: "d < 10 \<Longrightarrow> digit_val (digit_char d) = d"
proof -
  assume "d < 10"
  then have "d \<in> {0, 1, 2, 3, 4, 5, 6, 7, 8, 9}" by auto
  then show ?thesis
    by (auto simp add: digit_val_def digit_char_def)
qed

lemma digit_char_not_minus: "d < 10 \<Longrightarrow> digit_char d \<noteq> CHR ''-''"
proof -
  assume "d < 10"
  then have "d \<in> {0, 1, 2, 3, 4, 5, 6, 7, 8, 9}" by auto
  then show ?thesis
    by (auto simp add: digit_char_def)
qed

lemma nat_of_str_snoc: "nat_of_str (s @ [ch]) = 10 * nat_of_str s + digit_val ch"
  by (simp add: nat_of_str_def)

lemma nat_of_str_str_nat: "nat_of_str (str_nat n) = n"
proof (induction n rule: str_nat.induct)
  case (1 n)
  show ?case
  proof (cases "n < 10")
    case True
    then show ?thesis
      by (simp add: str_nat.simps [of n] nat_of_str_def digit_val_digit_char)
  next
    case False
    with 1 have "nat_of_str (str_nat (n div 10)) = n div 10" by simp
    with False show ?thesis
      by (simp add: str_nat.simps [of n] nat_of_str_snoc digit_val_digit_char)
  qed
qed

lemma str_nat_no_minus: "CHR ''-'' \<notin> set (str_nat n)"
proof (induction n rule: str_nat.induct)
  case (1 n)
  show ?case
  proof (cases "n < 10")
    case True
    then show ?thesis
      using digit_char_not_minus [of n] by (simp add: str_nat.simps [of n])
  next
    case False
    with 1 have "CHR ''-'' \<notin> set (str_nat (n div 10))" by simp
    with False show ?thesis
      using digit_char_not_minus [of "n mod 10"] by (simp add: str_nat.simps [of n])
  qed
qed

lemma str_nat_nonempty: "str_nat n \<noteq> []"
  by (simp add: str_nat.simps [of n])

lemma str_nat_hd: "hd (str_nat n) \<noteq> CHR ''-''"
  using str_nat_no_minus str_nat_nonempty by (metis hd_in_set)

lemma str_int_inj: "str_int i = str_int j \<Longrightarrow> i = j"
proof -
  assume eq: "str_int i = str_int j"
  show "i = j"
  proof (cases "i < 0"; cases "j < 0")
    assume neg: "i < 0" "j < 0"
    with eq have "str_nat (nat (- i)) = str_nat (nat (- j))" by (simp add: str_int_def)
    then have "nat (- i) = nat (- j)" by (metis nat_of_str_str_nat)
    with neg show ?thesis by simp
  next
    assume "i < 0" "\<not> j < 0"
    with eq have "CHR ''-'' # str_nat (nat (- i)) = str_nat (nat j)" by (simp add: str_int_def)
    then have "hd (str_nat (nat j)) = CHR ''-''" by (metis list.sel(1))
    with str_nat_hd show ?thesis by blast
  next
    assume "\<not> i < 0" "j < 0"
    with eq have "CHR ''-'' # str_nat (nat (- j)) = str_nat (nat i)" by (simp add: str_int_def)
    then have "hd (str_nat (nat i)) = CHR ''-''" by (metis list.sel(1))
    with str_nat_hd show ?thesis by blast
  next
    assume pos: "\<not> i < 0" "\<not> j < 0"
    with eq have "str_nat (nat i) = str_nat (nat j)" by (simp add: str_int_def)
    then have "nat i = nat j" by (metis nat_of_str_str_nat)
    with pos show ?thesis by simp
  qed
qed

section \<open>The response handler\<close>

text \<open>
  C1. With a 200 response carrying the envelope of \<^verbatim>\<open>test_create_design\<close>, the value
  that \<^verbatim>\<open>create_design\<close> returns is the whole decoded envelope: its keys are
  \<open>status\<close>, \<open>message\<close> and \<open>data\<close>, the design id is found only one level down under
  \<open>data\<close>, and nothing is unwrapped or renamed. The test expects a
  \<^verbatim>\<open>CreateDesignResponse\<close> whose \<^verbatim>\<open>design_id\<close> is the \<open>designId\<close> of \<open>data\<close>.
\<close>

theorem create_design_returns_whole_envelope:
  "result test_create_design = Inr create_design_envelope
   \<and> json_keys create_design_envelope = [''status'', ''message'', ''data'']
   \<and> json_get ''designId'' create_design_envelope = None
   \<and> json_get ''design_id'' create_design_envelope = None
   \<and> json_get ''data'' create_design_envelope = Some create_design_data
   \<and> json_get ''designId'' create_design_data = Some (JString ''123'')"
  by (simp add: test_create_design_def create_design_def requests_post_def Let_def mock_def
      handle_response_def raise_for_status_def create_design_envelope_def create_design_data_def)



text \<open>
  C3, as the claim states it, fails: a response with status 304 is no 2xx response, and
  the call returns its decoded body instead of raising the generic failure.
\<close>

theorem non_2xx_generic_failure_counterexample:
  "result (invoke test_client (mock 304 (Some (JObject []))) (TrackOrder ''order123''))
     = Inr (JObject [])
   \<and> result (invoke test_client (mock 304 (Some (JObject []))) (TrackOrder ''order123''))
     \<noteq> Inl (ValueError (''Request failed with status code: '' @ str_int 304))"
  by (simp add: track_order_def requests_get_def Let_def mock_def handle_response_def
      raise_for_status_def)

text \<open>
  C3, amended. For every operation and every status code from 400 to 599 other than 400,
  401 and 404, the call raises \<^verbatim>\<open>ValueError\<close> with the message
  "Request failed with status code: " followed by that code in decimal. For every status
  code below 400 or from 600 on, 3xx codes among them, no failure is raised for the
  status: the response is handled as a 2xx response is, so the call returns the decoded
  body, or raises the JSON decoder's exception when the body is not valid JSON.
\<close>

theorem generic_failure_carries_status:
  assumes "sent (invoke self send c) = [rq]"
  shows "(400 \<le> status_code (send rq) \<and> status_code (send rq) < 600
            \<and> status_code (send rq) \<notin> {400, 401, 404} \<longrightarrow>
          result (invoke self send c) =
            Inl (ValueError (''Request failed with status code: '' @ str_int (status_code (send rq)))))
       \<and> (status_code (send rq) < 400 \<or> 600 \<le> status_code (send rq) \<longrightarrow>
          result (invoke self send c) =
            (case json_body (send rq) of Some j \<Rightarrow> Inr j | None \<Rightarrow> Inl JSONDecodeError))"
  using invoke_result [OF assms]
  by (auto simp add: handle_response_def raise_for_status_def)

theorem generic_failure_carries_status_witness:
  "result (invoke test_client (mock 500 None) (UploadImage ''/path/to/image.png''))
     = Inl (ValueError ''Request failed with status code: 500'')
   \<and> result (invoke test_client (mock 302 (Some (JObject []))) (UploadImage ''/path/to/image.png''))
     = Inr (JObject [])
   \<and> result (invoke test_client (mock 304 None) (UploadImage ''/path/to/image.png''))
     = Inl JSONDecodeError
   \<and> result (invoke test_client (mock 600 (Some JNull)) (UploadImage ''/path/to/image.png''))
     = Inr JNull"
proof -
  let ?r = "\<lparr>verb = POST, url = ''https://api.example.com/images'',
             headers = [(''X-SwagUp-API-Key'', ''your_api_key'')],
             body = FilesBody [(''image'', ''/path/to/image.png'')]\<rparr>"
  have s: "sent (invoke test_client send (UploadImage ''/path/to/image.png'')) = [?r]" for send
    by (simp add: upload_image_def requests_post_def Let_def test_client_def init_def)
  have n: "str_int 500 = ''500''"
    by (simp add: str_int_def str_nat.simps digit_char_def)
  have a: "result (invoke test_client (mock 500 None) (UploadImage ''/path/to/image.png''))
     = Inl (ValueError ''Request failed with status code: 500'')"
    using generic_failure_carries_status [OF s [of "mock 500 None"]] n
    by (simp add: mock_def)
  have b: "result (invoke test_client (mock 302 (Some (JObject []))) (UploadImage ''/path/to/image.png''))
     = Inr (JObject [])"
    using generic_failure_carries_status [OF s [of "mock 302 (Some (JObject []))"]]
    by (simp add: mock_def)
  have c: "result (invoke test_client (mock 304 None) (UploadImage ''/path/to/image.png''))
     = Inl JSONDecodeError"
    using generic_failure_carries_status [OF s [of "mock 304 None"]]
    by (simp add: mock_def)
  have d: "result (invoke test_client (mock 600 (Some JNull)) (UploadImage ''/path/to/image.png''))
     = Inr JNull"
    using generic_failure_carries_status [OF s [of "mock 600 (Some JNull)"]]
    by (simp add: mock_def)
  from a b c d show ?thesis by simp
qed

text \<open>
  C4, as the claim states it, fails twice. A 200 response whose \<open>data\<close> object lacks
  every field of the result is returned as a success; a 200 response whose body is not
  JSON fails with the decoder's own exception, which the handler neither catches nor
  classifies.
\<close>

theorem malformed_response_counterexample:
  "json_get ''data'' empty_data_envelope = Some (JObject [])
   \<and> result (create_design test_client (mock 200 (Some empty_data_envelope))
        ''designer123'' ''Cool Cat'' ''Cat wearing sunglasses'' [] [] 1)
     = Inr empty_data_envelope
   \<and> result (create_design test_client (mock 200 None)
        ''designer123'' ''Cool Cat'' ''Cat wearing sunglasses'' [] [] 1)
     = Inl JSONDecodeError"
  by (simp add: create_design_def requests_post_def Let_def mock_def handle_response_def
      raise_for_status_def empty_data_envelope_def)

text \<open>
  C4, amended. For every operation, when the status is 2xx: a body that is not valid JSON
  makes the call fail with the JSON decoder's exception, passed on as it is; a body that
  is valid JSON is returned as the result whatever fields it has.
\<close>

theorem success_body_unchecked:
  assumes "sent (invoke self send c) = [rq]"
    and "200 \<le> status_code (send rq)" and "status_code (send rq) < 300"
  shows "(json_body (send rq) = None \<longrightarrow> result (invoke self send c) = Inl JSONDecodeError)
       \<and> (\<forall>j. json_body (send rq) = Some j \<longrightarrow> result (invoke self send c) = Inr j)"
  using invoke_result [OF assms(1)] assms(2,3)
  by (simp add: handle_response_def raise_for_status_def)

theorem success_body_unchecked_witness:
  "result (invoke test_client (mock 200 None) (TrackOrder ''order123'')) = Inl JSONDecodeError
   \<and> result (invoke test_client (mock 201 (Some empty_data_envelope)) (TrackOrder ''order123''))
       = Inr empty_data_envelope"
proof -
  let ?r = "\<lparr>verb = GET, url = ''https://api.example.com/orders/order123'',
             headers = [(''X-SwagUp-API-Key'', ''your_api_key'')], body = NoBody\<rparr>"
  have s1: "sent (invoke test_client (mock 200 None) (TrackOrder ''order123'')) = [?r]"
    by (simp add: track_order_def requests_get_def Let_def test_client_def init_def)
  have s2: "sent (invoke test_client (mock 201 (Some empty_data_envelope)) (TrackOrder ''order123'')) = [?r]"
    by (simp add: track_order_def requests_get_def Let_def test_client_def init_def)
  have c1: "200 \<le> status_code (mock 200 None ?r)" "status_code (mock 200 None ?r) < 300"
    "json_body (mock 200 None ?r) = None"
    by (simp_all add: mock_def)
  have c2: "200 \<le> status_code (mock 201 (Some empty_data_envelope) ?r)"
    "status_code (mock 201 (Some empty_data_envelope) ?r) < 300"
    "json_body (mock 201 (Some empty_data_envelope) ?r) = Some empty_data_envelope"
    by (simp_all add: mock_def)
  show ?thesis
    using success_body_unchecked [OF s1 c1(1,2)] success_body_unchecked [OF s2 c2(1,2)] c1(3) c2(3)
    by simp
qed

section \<open>The outbound request\<close>

text \<open>
  C5. Every operation that posts JSON sends an object with exactly the camelCase keys of
  its payload, each bound to the argument it stands for, and no other key.
\<close>

theorem post_payloads:
  "map body (sent (create_design self send designer_id design_name design_description categories tags price)) =
     [JsonBody (JObject
        [(''designerId'', JString designer_id),
         (''designName'', JString design_name),
         (''designDescription'', JString design_description),
         (''categories'', JArray (map JString categories)),
         (''tags'', JArray (map JString tags)),
         (''price'', JFloat price)])]
   \<and> map body (sent (choose_logo_color self send color design_id)) =
     [JsonBody (JObject [(''color'', JObject color), (''designId'', JString design_id)])]
   \<and> map body (sent (select_size_and_quantity self send design_id items)) =
     [JsonBody (JObject [(''designId'', JString design_id), (''items'', JArray items)])]
   \<and> map body (sent (set_shipping_destination self send design_id address)) =
     [JsonBody (JObject [(''designId'', JString design_id), (''address'', JObject address)])]
   \<and> map body (sent (manage_payment_methods self send payment_method)) =
     [JsonBody (JObject [(''paymentMethod'', JObject payment_method)])]
   \<and> map body (sent (place_order self send design_id payment_method_id)) =
     [JsonBody (JObject [(''designId'', JString design_id),
                         (''paymentMethodId'', JString payment_method_id)])]"
  by (simp add: op_defs)

text \<open>
  C6. Every operation sends one request, with the verb of the operation table and the
  URL that is the base address followed by the table's path, the identifier copied into
  the path unchanged.
\<close>

theorem verb_and_path:
  "map verb (sent (invoke self send c)) = [spec_verb c]
   \<and> map url (sent (invoke self send c)) = [base_url self @ spec_path c]"
  by (cases c) (simp_all add: op_defs)

text \<open>
  C7. Every operation sends its request with the header \<open>X-SwagUp-API-Key\<close> bound to the
  key the client was constructed with, and with no other header.
\<close>

theorem api_key_header:
  "map headers (sent (invoke (init b k) send c)) = [[(''X-SwagUp-API-Key'', k)]]"
  by (cases c) (simp_all add: op_defs init_def)

text \<open>
  C8. The upload of an image is one POST to \<open>/images\<close> that passes the file as the
  \<open>image\<close> entry of \<^verbatim>\<open>files=\<close> and no JSON payload, so the content type of the request
  is multipart form data.
\<close>

theorem upload_image_multipart:
  "sent (upload_image self send image_arg) =
     [\<lparr>verb = POST, url = base_url self @ ''/images'',
       headers = [(''X-SwagUp-API-Key'', api_key self)],
       body = FilesBody [(''image'', image_arg)]\<rparr>]
   \<and> map (content_type boundary) (sent (upload_image self send image_arg)) =
     [Some (''multipart/form-data; boundary='' @ boundary)]"
  by (simp add: upload_image_def requests_post_def Let_def content_type_def)

section \<open>The client object\<close>

text \<open>
  C9. After any call, returning or raising, the client is the one the constructor made:
  its base address and its key are the constructor's arguments.
\<close>

theorem configuration_unchanged:
  "client_after (invoke (init b k) send c) = init b k
   \<and> base_url (client_after (invoke (init b k) send c)) = b
   \<and> api_key (client_after (invoke (init b k) send c)) = k"
  by (cases c) (simp_all add: op_defs init_def)



end
